theory Spec2Isabelle
  imports Complex_Main "HOL-Library.Multiset"
begin

section \<open>Data model\<close>

text \<open>
  The structs of the Go packages \<^verbatim>\<open>prowlarr\<close>, \<^verbatim>\<open>realdebrid\<close>, \<^verbatim>\<open>titleparser\<close>,
  \<^verbatim>\<open>model\<close> and \<^verbatim>\<open>addon\<close>, reduced to the fields the pipeline stages below read or
  write. Go's \<^verbatim>\<open>uint\<close>, \<^verbatim>\<open>uint64\<close> and \<^verbatim>\<open>int\<close> fields are \<open>nat\<close> and \<open>int\<close>: no stage
  below does arithmetic on them that could wrap, except the conversion
  \<^verbatim>\<open>uint(minSeeders)\<close>, which is written out modulo \<open>2 ^ 64\<close>.
  Where two Go structs use the same field name, the field of the nested struct
  carries the struct's name as a prefix.
\<close>

record torrent =
  TorrentTitle :: string
  TorrentFileName :: string
  Seeders :: nat
  Size :: nat
  Imdb :: nat
  InfoHash :: string

record rdfile =
  FileID :: string
  FileName :: string
  FileSize :: nat

text \<open>\<^verbatim>\<open>titleparser.MetaInfo\<close>\<close>

record title_info =
  Resolution :: int
  Year :: int
  Quality :: string
  Codec :: string
  Audio :: string
  Container :: string
  ThreeD :: bool
  FromSeason :: int
  ToSeason :: int
  TitleEpisode :: int
  Title :: string
  Language :: string

text \<open>\<^verbatim>\<open>model.MetaInfo\<close>, as \<^verbatim>\<open>cinemeta\<close> fills it\<close>

record meta_info =
  Name :: string
  IMDBID :: nat
  FromYear :: int
  ToYear :: int

record user_data =
  RDAPIKey :: string
  ProwlarrURL :: string
  ProwlarrAPIKey :: string
  MinResolution :: string
  MaxResolution :: string
  MinSize :: string
  MaxSize :: string
  MinSeeders :: string
  ExcludedQualities :: string
  SearchTimeout :: string
  SortMethod :: string

text \<open>
  A \<^verbatim>\<open>*realdebrid.RealDebrid\<close> is a handle (or nil); what its \<^verbatim>\<open>GetFiles\<close> answers is
  given to the stage that calls it.
\<close>

type_synonym rdclient = nat

definition ContentTypeMovie :: string where
  "ContentTypeMovie = ''movie''"

definition ContentTypeSeries :: string where
  "ContentTypeSeries = ''series''"

record streamRecord =
  ContentType :: string
  Season :: int
  Episode :: int
  MetaInfo :: meta_info
  TitleInfo :: title_info
  Torrent :: torrent
  Files :: "rdfile list"
  MediaFile :: "rdfile option"
  RDClient :: "rdclient option"
  UserData :: user_data

text \<open>
  Go's zero values of the structs (\<^verbatim>\<open>&MetaInfo{}\<close>, \<^verbatim>\<open>&UserData{}\<close>, ...), from which
  the concrete records of the examples are built by field updates.
\<close>

definition zeroTorrent :: torrent where
  "zeroTorrent = \<lparr>TorrentTitle = [], TorrentFileName = [], Seeders = 0, Size = 0, Imdb = 0,
     InfoHash = []\<rparr>"

definition zeroTitleInfo :: title_info where
  "zeroTitleInfo = \<lparr>Resolution = 0, Year = 0, Quality = [], Codec = [], Audio = [],
     Container = [], ThreeD = False, FromSeason = 0, ToSeason = 0, TitleEpisode = 0,
     Title = [], Language = []\<rparr>"

definition zeroMetaInfo :: meta_info where
  "zeroMetaInfo = \<lparr>Name = [], IMDBID = 0, FromYear = 0, ToYear = 0\<rparr>"

definition zeroUserData :: user_data where
  "zeroUserData = \<lparr>RDAPIKey = [], ProwlarrURL = [], ProwlarrAPIKey = [], MinResolution = [],
     MaxResolution = [], MinSize = [], MaxSize = [], MinSeeders = [], ExcludedQualities = [],
     SearchTimeout = [], SortMethod = []\<rparr>"

definition zeroRecord :: streamRecord where
  "zeroRecord = \<lparr>ContentType = [], Season = 0, Episode = 0, MetaInfo = zeroMetaInfo,
     TitleInfo = zeroTitleInfo, Torrent = zeroTorrent, Files = [], MediaFile = None,
     RDClient = None, UserData = zeroUserData\<rparr>"

section \<open>Deduplication\<close>

text \<open>
  \<^verbatim>\<open>deduplicateTorrent\<close> returns a closure over a \<^verbatim>\<open>sync.Map\<close>. The closure is the
  function below on the set of stored keys: \<^verbatim>\<open>LoadOrStore\<close> is one atomic
  test-and-insert, so the calls of the stage's workers happen in some order, and
  \<open>dedupFilter\<close> is the \<^verbatim>\<open>Filter\<close> stage run over the records in that order.
\<close>

definition deduplicateTorrent :: "string set \<Rightarrow> streamRecord \<Rightarrow> bool \<times> string set" where
  "deduplicateTorrent found r =
     (if InfoHash (Torrent r) = [] then (False, found)
      else if InfoHash (Torrent r) \<in> found then (False, found)
      else (True, insert (InfoHash (Torrent r)) found))"

fun dedupFilter :: "string set \<Rightarrow> streamRecord list \<Rightarrow> streamRecord list" where
  "dedupFilter found [] = []"
| "dedupFilter found (r # rs) =
     (case deduplicateTorrent found r of
        (True, found') \<Rightarrow> r # dedupFilter found' rs
      | (False, found') \<Rightarrow> dedupFilter found' rs)"

definition hashOf :: "streamRecord \<Rightarrow> string" where
  "hashOf r = InfoHash (Torrent r)"

text \<open>A batch with a duplicated and an empty identifier.\<close>

definition dedupExample :: "streamRecord list" where
  "dedupExample =
     [zeroRecord\<lparr>Torrent := zeroTorrent\<lparr>InfoHash := ''aa'', Seeders := 1\<rparr>\<rparr>,
      zeroRecord\<lparr>Torrent := zeroTorrent\<lparr>InfoHash := [], Seeders := 2\<rparr>\<rparr>,
      zeroRecord\<lparr>Torrent := zeroTorrent\<lparr>InfoHash := ''aa'', Seeders := 3\<rparr>\<rparr>,
      zeroRecord\<lparr>Torrent := zeroTorrent\<lparr>InfoHash := ''bb'', Seeders := 4\<rparr>\<rparr>]"

section \<open>Quality score\<close>











section \<open>Properties of deduplication\<close>

lemma dedupFilter_by_hash:
  "filter (\<lambda>r. hashOf r = h) (dedupFilter found rs) =
     (if h = [] \<or> h \<in> found then [] else take 1 (filter (\<lambda>r. hashOf r = h) rs))"
proof (induction rs arbitrary: found)
  case Nil
  show ?case by simp
next
  case (Cons r rs)
  show ?case
  proof (cases "hashOf r = [] \<or> hashOf r \<in> found")
    case True
    then have step: "dedupFilter found (r # rs) = dedupFilter found rs"
      by (auto simp: deduplicateTorrent_def hashOf_def)
    from True show ?thesis unfolding step Cons.IH by auto
  next
    case False
    then have step: "dedupFilter found (r # rs) = r # dedupFilter (insert (hashOf r) found) rs"
      by (auto simp: deduplicateTorrent_def hashOf_def)
    from False Cons.IH [of "insert (hashOf r) found"] show ?thesis
      unfolding step by (auto split: if_splits)
  qed
qed

lemma dedupFilter_no_empty_hash:
  "r \<in> set (dedupFilter found rs) \<Longrightarrow> hashOf r \<noteq> []"
proof (induction rs arbitrary: found)
  case Nil
  then show ?case by simp
next
  case (Cons a rs)
  then show ?case
    by (auto simp: deduplicateTorrent_def hashOf_def split: if_splits)
qed

lemma find_take1_filter: "find P xs = Some x \<Longrightarrow> take 1 (filter P xs) = [x]"
  by (induction xs) (auto split: if_splits)

text \<open>
  Claim C2. For every finite sequence of records passed through the deduplication
  filter (starting from the empty set of identifiers), no surviving record has an empty
  canonical identifier, and for every non-empty identifier \<open>h\<close> that occurs in the
  sequence, the survivors carrying \<open>h\<close> are exactly one record: the first record of the
  sequence that carries \<open>h\<close>.
\<close>

theorem dedup_first_seen_wins:
  "(\<forall>r \<in> set (dedupFilter {} rs). hashOf r \<noteq> []) \<and>
   (h \<noteq> [] \<longrightarrow> find (\<lambda>r. hashOf r = h) rs = Some r0 \<longrightarrow>
      filter (\<lambda>r. hashOf r = h) (dedupFilter {} rs) = [r0])"
  using dedupFilter_no_empty_hash [of _ "{}" rs] dedupFilter_by_hash [of h "{}" rs]
    find_take1_filter [of "\<lambda>r. hashOf r = h" rs r0]
  by auto

theorem dedup_first_seen_wins_witness:
  "''aa'' \<noteq> [] \<and>
   find (\<lambda>r. hashOf r = ''aa'') dedupExample = Some (dedupExample ! 0) \<and>
   filter (\<lambda>r. hashOf r = ''aa'') (dedupFilter {} dedupExample) = [dedupExample ! 0] \<and>
   dedupFilter {} dedupExample = [dedupExample ! 0, dedupExample ! 3]"
proof -
  have f: "find (\<lambda>r. hashOf r = ''aa'') dedupExample = Some (dedupExample ! 0)"
    by (simp add: dedupExample_def hashOf_def)
  have d: "dedupFilter {} dedupExample = [dedupExample ! 0, dedupExample ! 3]"
    by (simp add: dedupExample_def deduplicateTorrent_def)
  from f d dedup_first_seen_wins [of dedupExample "''aa''" "dedupExample ! 0"]
  show ?thesis by simp
qed

section \<open>Properties of the quality score\<close>







end
